theory Spec2Isabelle
  imports Main "HOL-Library.Word"
begin

section \<open>The IEP Harmony file-processing backend\<close>

text \<open>
  The repository holds three variants of one Express server:
  \<^item> \<open>server.js\<close>, the basic server (suffix \<open>_server\<close> below): one route, \<open>POST /upload\<close>;
  \<^item> \<open>unnamed/part_000\<close>, the enhanced server with \<open>/health\<close>, \<open>/\<close>, \<open>/upload\<close> and
    \<open>/analyze\<close> (suffix \<open>_part0\<close>);
  \<^item> \<open>unnamed/part_001\<close>, the enhanced server without \<open>/analyze\<close> (suffix \<open>_part1\<close>).
  Each handler is embedded as a function from what it reads (the request, the clock, the
  extraction libraries) to the reply it sends together with the list of library calls it
  made. Console output is the only effect left out.
\<close>

subsection \<open>JavaScript values\<close>

text \<open>
  Strings are lists of 8-bit code units, so \<open>length\<close> is the \<open>.length\<close> of a string whose
  code units are below 256. Numbers are the integers: lengths, byte counts, clock readings.
  \<open>JObj\<close> lists the members of an object in insertion order, each key once.
\<close>

type_synonym bytes = "8 word list"

datatype jsval =
    JUndefined
  | JNull
  | JBool bool
  | JNum int
  | JStr string
  | JArr "jsval list"
  | JObj "(string \<times> jsval) list"

text \<open>A thrown value: \<open>instanceof multer.MulterError\<close> with its \<open>code\<close>, or another error.\<close>

datatype js_error =
    MulterError string string
  | Error string

fun message :: "js_error \<Rightarrow> string" where
  "message (MulterError c m) = m"
| "message (Error m) = m"

text \<open>
  What a client reads back from \<open>JSON.stringify\<close>: a member whose value is \<open>undefined\<close> is
  left out of an object, and \<open>undefined\<close> inside an array becomes \<open>null\<close>.
\<close>

fun json_wire :: "jsval \<Rightarrow> jsval" where
  "json_wire (JArr xs) = JArr (map (\<lambda>v. if v = JUndefined then JNull else json_wire v) xs)"
| "json_wire (JObj kvs) =
     JObj (map (\<lambda>(k, v). (k, json_wire v)) (filter (\<lambda>(k, v). v \<noteq> JUndefined) kvs))"
| "json_wire v = v"

text \<open>
  A reply is \<open>res.status(n).json(v)\<close>, or one of the two answers that third-party code gives
  without a JSON body: the CORS middleware answering a pre-flight request, and Express's
  own final handler (\<open>None\<close>: no route matched; \<open>Some e\<close>: an error nobody handled).
\<close>

datatype reply =
    Json nat jsval
  | Preflight
  | FinalHandler "js_error option"

definition res_json :: "nat \<Rightarrow> jsval \<Rightarrow> reply" where
  "res_json status v = Json status (json_wire v)"

subsection \<open>String operations\<close>

definition endsWith :: "string \<Rightarrow> string \<Rightarrow> bool" where
  "endsWith s t \<longleftrightarrow> length t \<le> length s \<and> drop (length s - length t) s = t"

text \<open>\<open>toLowerCase\<close> on code units below 256: A-Z, and the Latin-1 capitals except the
  multiplication sign, move up by 32.\<close>

definition lower_unit :: "char \<Rightarrow> char" where
  "lower_unit c =
     (let n = of_char c :: nat
      in if (65 \<le> n \<and> n \<le> 90) \<or> (192 \<le> n \<and> n \<le> 222 \<and> n \<noteq> 215)
         then char_of (n + 32) else c)"

definition toLowerCase :: "string \<Rightarrow> string" where
  "toLowerCase s = map lower_unit s"

text \<open>White space and line terminators below 256: TAB, LF, VT, FF, CR, SP, NBSP.\<close>

definition is_space :: "char \<Rightarrow> bool" where
  "is_space c \<longleftrightarrow> (of_char c :: nat) \<in> {9, 10, 11, 12, 13, 32, 160}"

definition trim :: "string \<Rightarrow> string" where
  "trim s = rev (dropWhile is_space (rev (dropWhile is_space s)))"

fun decimal :: "nat \<Rightarrow> string" where
  "decimal n =
     (if n < 10 then [char_of (48 + n)]
      else decimal (n div 10) @ [char_of (48 + n mod 10)])"

declare decimal.simps [simp del]

subsection \<open>The request, the clock and the libraries\<close>

record upload_file =
  originalname :: string
  buffer :: bytes

text \<open>
  \<open>req_body\<close> is what \<open>express.json()\<close> makes of the request: the error it passes to
  \<open>next\<close>, or the value it leaves in \<open>req.body\<close>. \<open>req_multipart\<close> is what the multipart
  parser finds before any size limit applies: an error, or the part named \<open>file\<close> if there
  is one.
\<close>

record request =
  req_method :: string
  req_url :: string
  req_body :: "js_error + jsval"
  req_multipart :: "js_error + upload_file option"

text \<open>
  Express and the CORS middleware are parameters: which requests the middleware answers
  itself, and whether a request matches a route registered for a method and a path.
\<close>

record express =
  preflight :: "request \<Rightarrow> bool"
  matches :: "string \<Rightarrow> string \<Rightarrow> request \<Rightarrow> bool"

text \<open>
  The extraction libraries are parameters too. Each call either rejects with an error or
  resolves; \<open>Inr None\<close> is a result whose text (\<open>result.value\<close>, \<open>data.text\<close>) is
  \<open>undefined\<close>, the case the handlers guard with \<open>?.\<close> and \<open>!extractedText\<close>.
\<close>

record libs =
  mammoth_extractRawText :: "bytes \<Rightarrow> js_error + string option"
  pdf :: "bytes \<Rightarrow> js_error + string option"

datatype invocation = Mammoth bytes | PdfParse bytes

text \<open>\<open>Date.now()\<close> at the start of the handler and when the reply is built,
  \<open>new Date().toISOString()\<close>, and \<open>process.uptime()\<close> (its whole seconds; the
  fraction is not represented).\<close>

record clock =
  startTime :: int
  endTime :: int
  toISOString :: string
  uptime :: int

subsection \<open>\<open>multer\<close>\<close>

text \<open>
  \<open>upload.single('file')\<close> with \<open>limits.fileSize\<close>, the maximal file size in bytes
  (\<open>None\<close>: no limit configured). A larger file makes it pass a \<open>MulterError\<close> with code
  \<open>LIMIT_FILE_SIZE\<close> to \<open>next\<close>; otherwise \<open>req.file\<close> is the part, if any.
\<close>

definition multer_single :: "nat option \<Rightarrow> request \<Rightarrow> js_error + upload_file option" where
  "multer_single fileSize req =
     (case req_multipart req of
        Inl e \<Rightarrow> Inl e
      | Inr None \<Rightarrow> Inr None
      | Inr (Some f) \<Rightarrow>
          (case fileSize of
             None \<Rightarrow> Inr (Some f)
           | Some limit \<Rightarrow>
               if limit < length (buffer f)
               then Inl (MulterError ''LIMIT_FILE_SIZE'' ''File too large'')
               else Inr (Some f)))"

definition upload_limit_server :: "nat option" where
  "upload_limit_server = None"

definition upload_limit_part0 :: "nat option" where
  "upload_limit_part0 = Some (10 * 1024 * 1024)"

definition upload_limit_part1 :: "nat option" where
  "upload_limit_part1 = Some (10 * 1024 * 1024)"

subsection \<open>The port\<close>

text \<open>The argument is \<open>process.env.PORT\<close>: \<open>None\<close> when the variable is unset. An empty
  string is falsy, so \<open>||\<close> replaces it like \<open>undefined\<close>.\<close>

definition port_server :: "string option \<Rightarrow> jsval" where
  "port_server env_PORT = JNum 3001"

definition port_part0 :: "string option \<Rightarrow> jsval" where
  "port_part0 env_PORT =
     (case env_PORT of
        None \<Rightarrow> JNum 3001
      | Some s \<Rightarrow> if s = [] then JNum 3001 else JStr s)"

definition port_part1 :: "string option \<Rightarrow> jsval" where
  "port_part1 env_PORT =
     (case env_PORT of
        None \<Rightarrow> JNum 3001
      | Some s \<Rightarrow> if s = [] then JNum 3001 else JStr s)"

subsection \<open>\<open>POST /upload\<close>, basic server\<close>

text \<open>
  The suffix test is \<open>originalname.endsWith\<close> on the name as it is. No inner
  \<open>try\<close>: a library error reaches the handler's one \<open>catch\<close>. The reply carries the
  text alone; \<open>text: undefined\<close> disappears on the wire.
\<close>

definition upload_server :: "libs \<Rightarrow> upload_file option \<Rightarrow> reply \<times> invocation list" where
  "upload_server L file =
     (case file of
        None \<Rightarrow> (res_json 400 (JObj [(''error'', JStr ''No file uploaded.'')]), [])
      | Some f \<Rightarrow>
          if endsWith (originalname f) ''.docx'' then
            (case mammoth_extractRawText L (buffer f) of
               Inl error \<Rightarrow>
                 (res_json 500 (JObj [(''error'', JStr ''Failed to process file.'')]),
                  [Mammoth (buffer f)])
             | Inr extractedText \<Rightarrow>
                 (res_json 200
                    (JObj [(''text'', case extractedText of None \<Rightarrow> JUndefined | Some t \<Rightarrow> JStr t)]),
                  [Mammoth (buffer f)]))
          else if endsWith (originalname f) ''.pdf'' then
            (case pdf L (buffer f) of
               Inl error \<Rightarrow>
                 (res_json 500 (JObj [(''error'', JStr ''Failed to process file.'')]),
                  [PdfParse (buffer f)])
             | Inr extractedText \<Rightarrow>
                 (res_json 200
                    (JObj [(''text'', case extractedText of None \<Rightarrow> JUndefined | Some t \<Rightarrow> JStr t)]),
                  [PdfParse (buffer f)]))
          else
            (res_json 400
               (JObj [(''error'', JStr ''Unsupported file type. Please upload a .docx or .pdf file.'')]),
             []))"

text \<open>The route: \<open>upload.single('file')\<close>, then the handler. The basic server registers
  no error middleware, so an error from \<open>multer\<close> goes to Express's final handler.\<close>

definition upload_route_server :: "libs \<Rightarrow> request \<Rightarrow> reply \<times> invocation list" where
  "upload_route_server L req =
     (case multer_single upload_limit_server req of
        Inl e \<Rightarrow> (FinalHandler (Some e), [])
      | Inr file \<Rightarrow> upload_server L file)"

subsection \<open>\<open>POST /upload\<close>, enhanced servers\<close>

text \<open>The message of the \<open>TypeError\<close> that reading \<open>.length\<close> of \<open>undefined\<close> throws.\<close>

definition length_of_undefined :: string where
  "length_of_undefined = ''Cannot read properties of undefined (reading 'length')''"

text \<open>
  The dispatch on the lower-cased name. \<open>Inl\<close> is a reply sent from inside the chain (the
  \<open>return res.status(...)\<close> of an inner \<open>catch\<close> or of the last \<open>else\<close>); \<open>Inr\<close> is the
  value left in \<open>extractedText\<close>.
\<close>

definition extract_part0 ::
  "libs \<Rightarrow> upload_file \<Rightarrow> (reply + string option) \<times> invocation list" where
  "extract_part0 L f =
     (if endsWith (toLowerCase (originalname f)) ''.docx'' then
        (case mammoth_extractRawText L (buffer f) of
           Inl docxError \<Rightarrow>
             (Inl (res_json 500
                (JObj [(''error'', JStr ''Failed to process DOCX file.''),
                       (''details'', JStr (message docxError))])),
              [Mammoth (buffer f)])
         | Inr extractedText \<Rightarrow> (Inr extractedText, [Mammoth (buffer f)]))
      else if endsWith (toLowerCase (originalname f)) ''.pdf'' then
        (case pdf L (buffer f) of
           Inl pdfError \<Rightarrow>
             (Inl (res_json 500
                (JObj [(''error'', JStr ''Failed to process PDF file.''),
                       (''details'', JStr (message pdfError))])),
              [PdfParse (buffer f)])
         | Inr extractedText \<Rightarrow> (Inr extractedText, [PdfParse (buffer f)]))
      else
        (Inl (res_json 400
           (JObj [(''error'', JStr ''Unsupported file type.''),
                  (''supportedTypes'', JArr [JStr ''.docx'', JStr ''.pdf''])])),
         []))"

text \<open>
  After the dispatch: \<open>!extractedText?.trim()\<close> holds for \<open>undefined\<close> and for a string
  that trims to the empty string. For \<open>undefined\<close> the 422 reply is never built, because
  \<open>extractedText.length\<close> throws into the outer \<open>catch\<close>.
\<close>

definition upload_part0 ::
  "libs \<Rightarrow> clock \<Rightarrow> upload_file option \<Rightarrow> reply \<times> invocation list" where
  "upload_part0 L clk file =
     (case file of
        None \<Rightarrow>
          (res_json 400
             (JObj [(''error'', JStr ''No file uploaded.''),
                    (''timestamp'', JStr (toISOString clk))]),
           [])
      | Some f \<Rightarrow>
          (case extract_part0 L f of
             (Inl sent, calls) \<Rightarrow> (sent, calls)
           | (Inr None, calls) \<Rightarrow>
               (res_json 500
                  (JObj [(''error'', JStr ''Unexpected error during file processing.''),
                         (''details'', JStr length_of_undefined)]),
                calls)
           | (Inr (Some extractedText), calls) \<Rightarrow>
               if trim extractedText = [] then
                 (res_json 422
                    (JObj [(''error'', JStr ''No text extracted.''),
                           (''extractedLength'', JNum (int (length extractedText)))]),
                  calls)
               else
                 (res_json 200
                    (JObj [(''text'', JStr extractedText),
                           (''metadata'', JObj
                              [(''originalName'', JStr (originalname f)),
                               (''fileSize'', JNum (int (length (buffer f)))),
                               (''extractedLength'', JNum (int (length extractedText))),
                               (''processingTime'', JNum (endTime clk - startTime clk)),
                               (''timestamp'', JStr (toISOString clk))])]),
                  calls)))"

definition extract_part1 ::
  "libs \<Rightarrow> upload_file \<Rightarrow> (reply + string option) \<times> invocation list" where
  "extract_part1 L f =
     (if endsWith (toLowerCase (originalname f)) ''.docx'' then
        (case mammoth_extractRawText L (buffer f) of
           Inl docxError \<Rightarrow>
             (Inl (res_json 500
                (JObj [(''error'', JStr
                         ''Failed to process DOCX file. The file may be corrupted or in an unsupported format.''),
                       (''details'', JStr (message docxError))])),
              [Mammoth (buffer f)])
         | Inr extractedText \<Rightarrow> (Inr extractedText, [Mammoth (buffer f)]))
      else if endsWith (toLowerCase (originalname f)) ''.pdf'' then
        (case pdf L (buffer f) of
           Inl pdfError \<Rightarrow>
             (Inl (res_json 500
                (JObj [(''error'', JStr
                         ''Failed to process PDF file. The file may be corrupted, password-protected, or contain only images.''),
                       (''details'', JStr (message pdfError))])),
              [PdfParse (buffer f)])
         | Inr extractedText \<Rightarrow> (Inr extractedText, [PdfParse (buffer f)]))
      else
        (Inl (res_json 400
           (JObj [(''error'', JStr ''Unsupported file type. Please upload a .docx or .pdf file.''),
                  (''supportedTypes'', JArr [JStr ''.docx'', JStr ''.pdf''])])),
         []))"

text \<open>Here the test is \<open>!extractedText || extractedText.trim().length === 0\<close>, and the
  outer \<open>catch\<close> reads the clock again.\<close>

definition upload_part1 ::
  "libs \<Rightarrow> clock \<Rightarrow> upload_file option \<Rightarrow> reply \<times> invocation list" where
  "upload_part1 L clk file =
     (case file of
        None \<Rightarrow>
          (res_json 400
             (JObj [(''error'', JStr ''No file uploaded.''),
                    (''timestamp'', JStr (toISOString clk))]),
           [])
      | Some f \<Rightarrow>
          (case extract_part1 L f of
             (Inl sent, calls) \<Rightarrow> (sent, calls)
           | (Inr None, calls) \<Rightarrow>
               (res_json 500
                  (JObj [(''error'', JStr ''An unexpected error occurred while processing the file.''),
                         (''details'', JStr length_of_undefined),
                         (''processingTime'', JNum (endTime clk - startTime clk)),
                         (''timestamp'', JStr (toISOString clk))]),
                calls)
           | (Inr (Some extractedText), calls) \<Rightarrow>
               if extractedText = [] \<or> length (trim extractedText) = 0 then
                 (res_json 422
                    (JObj [(''error'', JStr
                             ''No text content could be extracted from the file. The file may be empty or contain only images.''),
                           (''extractedLength'', JNum (int (length extractedText)))]),
                  calls)
               else
                 (res_json 200
                    (JObj [(''text'', JStr extractedText),
                           (''metadata'', JObj
                              [(''originalName'', JStr (originalname f)),
                               (''fileSize'', JNum (int (length (buffer f)))),
                               (''extractedLength'', JNum (int (length extractedText))),
                               (''processingTime'', JNum (endTime clk - startTime clk)),
                               (''timestamp'', JStr (toISOString clk))])]),
                  calls)))"

subsection \<open>Error middleware and 404 handler\<close>

definition error_middleware_part0 :: "clock \<Rightarrow> js_error \<Rightarrow> reply" where
  "error_middleware_part0 clk error =
     (case error of
        MulterError code m \<Rightarrow>
          if code = ''LIMIT_FILE_SIZE''
          then res_json 413 (JObj [(''error'', JStr ''File too large. Max size is 10MB.'')])
          else res_json 500
                 (JObj [(''error'', JStr ''Internal server error''),
                        (''timestamp'', JStr (toISOString clk))])
      | Error m \<Rightarrow>
          res_json 500
            (JObj [(''error'', JStr ''Internal server error''),
                   (''timestamp'', JStr (toISOString clk))]))"

definition error_middleware_part1 :: "clock \<Rightarrow> js_error \<Rightarrow> reply" where
  "error_middleware_part1 clk error =
     (case error of
        MulterError code m \<Rightarrow>
          if code = ''LIMIT_FILE_SIZE''
          then res_json 413
                 (JObj [(''error'', JStr ''File too large. Maximum size is 10MB.''),
                        (''maxSize'', JStr ''10MB'')])
          else res_json 500
                 (JObj [(''error'', JStr ''Internal server error''),
                        (''timestamp'', JStr (toISOString clk))])
      | Error m \<Rightarrow>
          res_json 500
            (JObj [(''error'', JStr ''Internal server error''),
                   (''timestamp'', JStr (toISOString clk))]))"

definition availableEndpoints_part0 :: jsval where
  "availableEndpoints_part0 =
     JArr [JStr ''GET /'', JStr ''GET /health'', JStr ''POST /upload'', JStr ''POST /analyze'']"

definition availableEndpoints_part1 :: jsval where
  "availableEndpoints_part1 = JArr [JStr ''GET /'', JStr ''GET /health'', JStr ''POST /upload'']"

definition not_found_part0 :: reply where
  "not_found_part0 =
     res_json 404
       (JObj [(''error'', JStr ''Endpoint not found''),
              (''availableEndpoints'', availableEndpoints_part0)])"

definition not_found_part1 :: reply where
  "not_found_part1 =
     res_json 404
       (JObj [(''error'', JStr ''Endpoint not found''),
              (''availableEndpoints'', availableEndpoints_part1)])"

text \<open>The upload routes of the enhanced servers: an error from \<open>multer\<close> skips the
  handler and is answered by the error middleware.\<close>

definition upload_route_part0 :: "libs \<Rightarrow> clock \<Rightarrow> request \<Rightarrow> reply \<times> invocation list" where
  "upload_route_part0 L clk req =
     (case multer_single upload_limit_part0 req of
        Inl e \<Rightarrow> (error_middleware_part0 clk e, [])
      | Inr file \<Rightarrow> upload_part0 L clk file)"

definition upload_route_part1 :: "libs \<Rightarrow> clock \<Rightarrow> request \<Rightarrow> reply \<times> invocation list" where
  "upload_route_part1 L clk req =
     (case multer_single upload_limit_part1 req of
        Inl e \<Rightarrow> (error_middleware_part1 clk e, [])
      | Inr file \<Rightarrow> upload_part1 L clk file)"

subsection \<open>\<open>POST /analyze\<close>\<close>

text \<open>
  What the handler reads from the parsed body. \<open>own_member\<close> is the destructuring of a
  named member (a primitive or an array has neither \<open>accommodations\<close> nor \<open>lessonPlan\<close>);
  \<open>opt_length\<close> is \<open>x?.length\<close>; \<open>truthy\<close> decides \<open>||\<close>.
\<close>

fun own_member :: "jsval \<Rightarrow> string \<Rightarrow> jsval" where
  "own_member (JObj kvs) k = (case map_of kvs k of None \<Rightarrow> JUndefined | Some v \<Rightarrow> v)"
| "own_member v k = JUndefined"

fun opt_length :: "jsval \<Rightarrow> jsval" where
  "opt_length (JStr s) = JNum (int (length s))"
| "opt_length (JArr xs) = JNum (int (length xs))"
| "opt_length (JObj kvs) = own_member (JObj kvs) ''length''"
| "opt_length v = JUndefined"

fun truthy :: "jsval \<Rightarrow> bool" where
  "truthy JUndefined = False"
| "truthy JNull = False"
| "truthy (JBool b) = b"
| "truthy (JNum i) = (i \<noteq> 0)"
| "truthy (JStr s) = (s \<noteq> [])"
| "truthy v = True"

definition or_else :: "jsval \<Rightarrow> jsval \<Rightarrow> jsval" where
  "or_else a b = (if truthy a then a else b)"

fun join_comma :: "string option list \<Rightarrow> string option" where
  "join_comma [] = Some []"
| "join_comma [x] = x"
| "join_comma (x # y # ys) =
     (case x of
        None \<Rightarrow> None
      | Some s \<Rightarrow> (case join_comma (y # ys) of None \<Rightarrow> None | Some r \<Rightarrow> Some (s @ '','' @ r)))"

text \<open>
  The conversion a template literal applies. An integer below \<open>10^21\<close> in magnitude prints
  as its decimal digits; an array joins its elements with commas; an object prints as
  \<open>[object Object]\<close> unless a member named \<open>toString\<close> (never callable in parsed JSON)
  hides the inherited method, and then the conversion throws a \<open>TypeError\<close> (\<open>None\<close>).
\<close>

fun to_string :: "jsval \<Rightarrow> string option" where
  "to_string JUndefined = Some ''undefined''"
| "to_string JNull = Some ''null''"
| "to_string (JBool b) = Some (if b then ''true'' else ''false'')"
| "to_string (JNum i) = Some (if i < 0 then ''-'' @ decimal (nat (- i)) else decimal (nat i))"
| "to_string (JStr s) = Some s"
| "to_string (JArr xs) =
     join_comma (map (\<lambda>v. if v = JUndefined \<or> v = JNull then Some [] else to_string v) xs)"
| "to_string (JObj kvs) =
     (if ''toString'' \<in> fst ` set kvs then None else Some ''[object Object]'')"

definition destructure_undefined :: string where
  "destructure_undefined =
     ''Cannot destructure property 'accommodations' of 'req.body' as it is undefined.''"

definition destructure_null :: string where
  "destructure_null =
     ''Cannot destructure property 'accommodations' of 'req.body' as it is null.''"

definition not_primitive :: string where
  "not_primitive = ''Cannot convert object to primitive value''"

definition analyze_failed :: "string \<Rightarrow> reply" where
  "analyze_failed m =
     res_json 500 (JObj [(''error'', JStr ''Failed to analyze input.''), (''details'', JStr m)])"

definition analyze :: "jsval \<Rightarrow> reply" where
  "analyze body =
     (case body of
        JUndefined \<Rightarrow> analyze_failed destructure_undefined
      | JNull \<Rightarrow> analyze_failed destructure_null
      | _ \<Rightarrow>
          (let accommodations = own_member body ''accommodations'';
               lessonPlan = own_member body ''lessonPlan''
           in case to_string (or_else (opt_length accommodations) (JNum 0)) of
                None \<Rightarrow> analyze_failed not_primitive
              | Some a \<Rightarrow>
                  (case to_string (or_else (opt_length lessonPlan) (JNum 0)) of
                     None \<Rightarrow> analyze_failed not_primitive
                   | Some l \<Rightarrow>
                       res_json 200
                         (JObj [(''message'', JStr ''Analysis received.''),
                                (''summary'', JStr
                                   (''Accommodations and lesson plan received ('' @ a @ '' / '' @ l
                                    @ '' characters).'')),
                                (''received'', JObj
                                   [(''accommodations'', accommodations),
                                    (''lessonPlan'', lessonPlan)])]))))"

subsection \<open>\<open>GET /health\<close>, \<open>GET /\<close> and the applications\<close>

definition health :: "clock \<Rightarrow> reply" where
  "health clk =
     res_json 200
       (JObj [(''status'', JStr ''healthy''),
              (''timestamp'', JStr (toISOString clk)),
              (''uptime'', JNum (uptime clk))])"

definition root :: reply where
  "root = res_json 200 (JObj [(''message'', JStr ''IEP Harmony File Processing Server'')])"

text \<open>
  The middleware and routes in the order they are registered. A request that no route
  answers falls through to the 404 handler; an error passed to \<open>next\<close> skips to the error
  middleware.
\<close>

definition app_part0 ::
  "express \<Rightarrow> libs \<Rightarrow> clock \<Rightarrow> request \<Rightarrow> reply \<times> invocation list" where
  "app_part0 X L clk req =
     (if preflight X req then (Preflight, [])
      else case req_body req of
             Inl e \<Rightarrow> (error_middleware_part0 clk e, [])
           | Inr body \<Rightarrow>
               if matches X ''GET'' ''/health'' req then (health clk, [])
               else if matches X ''GET'' ''/'' req then (root, [])
               else if matches X ''POST'' ''/upload'' req then upload_route_part0 L clk req
               else if matches X ''POST'' ''/analyze'' req then (analyze body, [])
               else (not_found_part0, []))"

definition app_part1 ::
  "express \<Rightarrow> libs \<Rightarrow> clock \<Rightarrow> request \<Rightarrow> reply \<times> invocation list" where
  "app_part1 X L clk req =
     (if preflight X req then (Preflight, [])
      else if matches X ''GET'' ''/health'' req then (health clk, [])
      else if matches X ''GET'' ''/'' req then (root, [])
      else if matches X ''POST'' ''/upload'' req then upload_route_part1 L clk req
      else (not_found_part1, []))"

definition app_server :: "express \<Rightarrow> libs \<Rightarrow> request \<Rightarrow> reply \<times> invocation list" where
  "app_server X L req =
     (if preflight X req then (Preflight, [])
      else if matches X ''POST'' ''/upload'' req then upload_route_server L req
      else (FinalHandler None, []))"

subsection \<open>Concrete surroundings for running the handlers\<close>

text \<open>A routing that compares method and path literally, libraries that answer every
  buffer alike, and one clock reading.\<close>

definition is_options :: "request \<Rightarrow> bool" where
  "is_options req \<longleftrightarrow> req_method req = ''OPTIONS''"

definition same_method_path :: "string \<Rightarrow> string \<Rightarrow> request \<Rightarrow> bool" where
  "same_method_path m p req \<longleftrightarrow> req_method req = m \<and> req_url req = p"

definition literal_express :: express where
  "literal_express = \<lparr>preflight = is_options, matches = same_method_path\<rparr>"

definition answer :: "js_error + string option \<Rightarrow> bytes \<Rightarrow> js_error + string option" where
  "answer r b = r"

definition stub_libs :: "js_error + string option \<Rightarrow> libs" where
  "stub_libs r = \<lparr>mammoth_extractRawText = answer r, pdf = answer r\<rparr>"

definition sample_clock :: clock where
  "sample_clock =
     \<lparr>startTime = 1000, endTime = 1042, toISOString = ''2025-01-01T00:00:00.042Z'', uptime = 7\<rparr>"

text \<open>The predicate of the error invariant: the body is an object whose \<open>error\<close> member
  is a string.\<close>

definition error_string :: "jsval \<Rightarrow> bool" where
  "error_string body =
     (case body of
        JObj kvs \<Rightarrow> (case map_of kvs ''error'' of Some (JStr s) \<Rightarrow> True | _ \<Rightarrow> False)
      | _ \<Rightarrow> False)"

definition json_failure :: "reply \<Rightarrow> bool" where
  "json_failure r = (case r of Json status body \<Rightarrow> status \<noteq> 200 | _ \<Rightarrow> False)"

definition has_error_string :: "reply \<Rightarrow> bool" where
  "has_error_string r = (case r of Json status body \<Rightarrow> error_string body | _ \<Rightarrow> False)"

fun status_of :: "reply \<Rightarrow> nat option" where
  "status_of (Json status body) = Some status"
| "status_of r = None"

text \<open>
  The decimal numeral of a natural number, said without reference to \<open>decimal\<close>: a
  non-empty string of digits, with no leading zero unless it is \<open>0\<close> itself, whose
  value read in base ten is the number.
\<close>

definition is_digit :: "char \<Rightarrow> bool" where
  "is_digit c \<longleftrightarrow> 48 \<le> (of_char c :: nat) \<and> (of_char c :: nat) \<le> 57"

definition decimal_value :: "string \<Rightarrow> nat" where
  "decimal_value s = foldl (\<lambda>acc c. 10 * acc + (of_char c - 48)) 0 s"

definition is_decimal_of :: "string \<Rightarrow> nat \<Rightarrow> bool" where
  "is_decimal_of s n \<longleftrightarrow>
     s \<noteq> [] \<and> list_all is_digit s \<and> (hd s = CHR ''0'' \<longrightarrow> s = ''0'') \<and> decimal_value s = n"

section \<open>Properties\<close>

subsection \<open>Facts about the string operations\<close>

lemma endsWith_iff: "endsWith s t \<longleftrightarrow> (\<exists>p. s = p @ t)"
proof
  assume "endsWith s t"
  then have "s = take (length s - length t) s @ t"
    unfolding endsWith_def by (metis append_take_drop_id)
  then show "\<exists>p. s = p @ t" ..
next
  assume "\<exists>p. s = p @ t"
  then show "endsWith s t" unfolding endsWith_def by auto
qed

lemma toLowerCase_append: "toLowerCase (a @ b) = toLowerCase a @ toLowerCase b"
  by (simp add: toLowerCase_def)

lemma pdf_not_docx: "endsWith s ''.pdf'' \<Longrightarrow> \<not> endsWith s ''.docx''"
proof
  assume a: "endsWith s ''.pdf''" and b: "endsWith s ''.docx''"
  from a obtain p where p: "s = p @ ''.pdf''" unfolding endsWith_iff ..
  from b obtain q where q: "s = q @ ''.docx''" unfolding endsWith_iff ..
  have "last s = CHR ''f''" using p by simp
  moreover have "last s = CHR ''x''" using q by simp
  ultimately show False by simp
qed

lemma trim_empty_iff: "trim s = [] \<longleftrightarrow> (\<forall>c \<in> set s. is_space c)"
proof
  assume "trim s = []"
  then have all: "\<forall>x \<in> set (dropWhile is_space s). is_space x"
    unfolding trim_def by (simp add: dropWhile_eq_Nil_conv)
  have "dropWhile is_space s = []"
  proof (rule ccontr)
    assume ne: "dropWhile is_space s \<noteq> []"
    then have "\<not> is_space (hd (dropWhile is_space s))" by (rule hd_dropWhile)
    moreover have "hd (dropWhile is_space s) \<in> set (dropWhile is_space s)" using ne by simp
    ultimately show False using all by blast
  qed
  then show "\<forall>c \<in> set s. is_space c" by (simp add: dropWhile_eq_Nil_conv)
next
  assume "\<forall>c \<in> set s. is_space c"
  then have d: "dropWhile is_space s = []" by (simp add: dropWhile_eq_Nil_conv)
  show "trim s = []" by (simp only: trim_def d rev.simps dropWhile.simps)
qed

subsection \<open>Successful uploads\<close>

text \<open>
  C1, as amended. Take an upload whose extraction resolves to a text \<open>t\<close> with at least one
  character that is not white space. In both enhanced servers, when the lower-cased name
  ends in \<open>.docx\<close> or \<open>.pdf\<close>, the handler answers 200 with the body
  \<open>{text, metadata: {originalName, fileSize, extractedLength, processingTime, timestamp}}\<close>,
  where \<open>text\<close> is \<open>t\<close>, \<open>originalName\<close> the uploaded name, \<open>fileSize\<close> the length of the
  buffer and \<open>extractedLength\<close> the length of \<open>t\<close>. The basic server, when the name as
  written ends in \<open>.docx\<close> or \<open>.pdf\<close>, answers 200 with the body \<open>{text}\<close> alone.
\<close>

theorem upload_valid_document:
  assumes "trim t \<noteq> []"
  shows
    "(endsWith (toLowerCase (originalname f)) ''.docx''
        \<and> mammoth_extractRawText L (buffer f) = Inr (Some t)
      \<or> endsWith (toLowerCase (originalname f)) ''.pdf'' \<and> pdf L (buffer f) = Inr (Some t)
      \<longrightarrow> fst (upload_part0 L clk (Some f)) =
            Json 200 (JObj [(''text'', JStr t),
              (''metadata'', JObj
                 [(''originalName'', JStr (originalname f)),
                  (''fileSize'', JNum (int (length (buffer f)))),
                  (''extractedLength'', JNum (int (length t))),
                  (''processingTime'', JNum (endTime clk - startTime clk)),
                  (''timestamp'', JStr (toISOString clk))])])
        \<and> fst (upload_part1 L clk (Some f)) =
            Json 200 (JObj [(''text'', JStr t),
              (''metadata'', JObj
                 [(''originalName'', JStr (originalname f)),
                  (''fileSize'', JNum (int (length (buffer f)))),
                  (''extractedLength'', JNum (int (length t))),
                  (''processingTime'', JNum (endTime clk - startTime clk)),
                  (''timestamp'', JStr (toISOString clk))])]))
     \<and> (endsWith (originalname f) ''.docx'' \<and> mammoth_extractRawText L (buffer f) = Inr (Some t)
      \<or> endsWith (originalname f) ''.pdf'' \<and> pdf L (buffer f) = Inr (Some t)
      \<longrightarrow> fst (upload_server L (Some f)) = Json 200 (JObj [(''text'', JStr t)]))"
proof -
  have ne: "t \<noteq> []" using assms by (auto simp: trim_def)
  show ?thesis
    using assms ne
    by (auto simp: upload_part0_def upload_part1_def upload_server_def extract_part0_def
        extract_part1_def res_json_def dest: pdf_not_docx)
qed

theorem upload_valid_document_witness:
  "trim ''Goals'' \<noteq> []
   \<and> endsWith (toLowerCase ''plan.docx'') ''.docx''
   \<and> endsWith ''plan.docx'' ''.docx''
   \<and> mammoth_extractRawText (stub_libs (Inr (Some ''Goals''))) [80, 75, 3, 4] = Inr (Some ''Goals'')
   \<and> fst (upload_part0 (stub_libs (Inr (Some ''Goals''))) sample_clock
            (Some \<lparr>originalname = ''plan.docx'', buffer = [80, 75, 3, 4]\<rparr>)) =
       Json 200 (JObj [(''text'', JStr ''Goals''),
         (''metadata'', JObj
            [(''originalName'', JStr ''plan.docx''),
             (''fileSize'', JNum 4),
             (''extractedLength'', JNum 5),
             (''processingTime'', JNum 42),
             (''timestamp'', JStr ''2025-01-01T00:00:00.042Z'')])])
   \<and> fst (upload_server (stub_libs (Inr (Some ''Goals'')))
            (Some \<lparr>originalname = ''plan.docx'', buffer = [80, 75, 3, 4]\<rparr>)) =
       Json 200 (JObj [(''text'', JStr ''Goals'')])"
proof -
  have h1: "trim ''Goals'' \<noteq> []" by code_simp
  have h2: "endsWith (toLowerCase ''plan.docx'') ''.docx''" by code_simp
  have h3: "endsWith ''plan.docx'' ''.docx''" by code_simp
  show ?thesis
    using upload_valid_document [OF h1,
        of "\<lparr>originalname = ''plan.docx'', buffer = [80, 75, 3, 4]\<rparr>"
           "stub_libs (Inr (Some ''Goals''))" sample_clock] h1 h2 h3
    by (simp add: stub_libs_def answer_def sample_clock_def)
qed

text \<open>The basic server on a valid \<open>.docx\<close> upload: status 200, and a body with no
  \<open>metadata\<close> member.\<close>

theorem upload_server_no_metadata:
  "fst (upload_server (stub_libs (Inr (Some ''Goals'')))
          (Some \<lparr>originalname = ''plan.docx'', buffer = [80, 75, 3, 4]\<rparr>)) =
     Json 200 (JObj [(''text'', JStr ''Goals'')])
   \<and> own_member (JObj [(''text'', JStr ''Goals'')]) ''metadata'' = JUndefined"
  by code_simp

subsection \<open>Unsupported names\<close>

text \<open>
  C2, as amended. For every file that reaches the handler, with any buffer: in both
  enhanced servers, when the lower-cased name ends neither in \<open>.docx\<close> nor in \<open>.pdf\<close>,
  the handler answers 400 with \<open>supportedTypes\<close> equal to \<open>[".docx", ".pdf"]\<close> and calls
  no extraction library. The basic server, when the name as written ends in neither
  suffix, answers 400 with an \<open>error\<close> message alone and calls no library either.
\<close>

theorem upload_unsupported_name:
  "(\<not> endsWith (toLowerCase (originalname f)) ''.docx''
      \<and> \<not> endsWith (toLowerCase (originalname f)) ''.pdf''
    \<longrightarrow> upload_part0 L clk (Some f) =
          (Json 400 (JObj [(''error'', JStr ''Unsupported file type.''),
                           (''supportedTypes'', JArr [JStr ''.docx'', JStr ''.pdf''])]), [])
      \<and> upload_part1 L clk (Some f) =
          (Json 400 (JObj [(''error'', JStr ''Unsupported file type. Please upload a .docx or .pdf file.''),
                           (''supportedTypes'', JArr [JStr ''.docx'', JStr ''.pdf''])]), []))
   \<and> (\<not> endsWith (originalname f) ''.docx'' \<and> \<not> endsWith (originalname f) ''.pdf''
    \<longrightarrow> upload_server L (Some f) =
          (Json 400 (JObj [(''error'', JStr ''Unsupported file type. Please upload a .docx or .pdf file.'')]),
           []))"
  by (simp add: upload_part0_def upload_part1_def upload_server_def extract_part0_def
      extract_part1_def res_json_def)

theorem upload_unsupported_name_witness:
  "\<not> endsWith (toLowerCase ''notes.TXT'') ''.docx''
   \<and> \<not> endsWith (toLowerCase ''notes.TXT'') ''.pdf''
   \<and> \<not> endsWith ''notes.TXT'' ''.docx'' \<and> \<not> endsWith ''notes.TXT'' ''.pdf''
   \<and> upload_part0 (stub_libs (Inr (Some ''Goals''))) sample_clock
         (Some \<lparr>originalname = ''notes.TXT'', buffer = [37, 80, 68, 70]\<rparr>) =
       (Json 400 (JObj [(''error'', JStr ''Unsupported file type.''),
                        (''supportedTypes'', JArr [JStr ''.docx'', JStr ''.pdf''])]), [])
   \<and> upload_part1 (stub_libs (Inr (Some ''Goals''))) sample_clock
         (Some \<lparr>originalname = ''notes.TXT'', buffer = [37, 80, 68, 70]\<rparr>) =
       (Json 400 (JObj [(''error'', JStr ''Unsupported file type. Please upload a .docx or .pdf file.''),
                        (''supportedTypes'', JArr [JStr ''.docx'', JStr ''.pdf''])]), [])
   \<and> upload_server (stub_libs (Inr (Some ''Goals'')))
         (Some \<lparr>originalname = ''notes.TXT'', buffer = [37, 80, 68, 70]\<rparr>) =
       (Json 400 (JObj [(''error'', JStr ''Unsupported file type. Please upload a .docx or .pdf file.'')]),
        [])"
proof -
  have h1: "\<not> endsWith (toLowerCase ''notes.TXT'') ''.docx''" by code_simp
  have h2: "\<not> endsWith (toLowerCase ''notes.TXT'') ''.pdf''" by code_simp
  have h3: "\<not> endsWith ''notes.TXT'' ''.docx''" by code_simp
  have h4: "\<not> endsWith ''notes.TXT'' ''.pdf''" by code_simp
  show ?thesis
    using upload_unsupported_name
      [of "\<lparr>originalname = ''notes.TXT'', buffer = [37, 80, 68, 70]\<rparr>"
          "stub_libs (Inr (Some ''Goals''))" sample_clock] h1 h2 h3 h4
    by simp
qed

text \<open>The basic server on a \<open>.TXT\<close> upload: status 400, and a body with no
  \<open>supportedTypes\<close> member.\<close>

theorem upload_server_no_supportedTypes:
  "upload_server (stub_libs (Inr (Some ''Goals'')))
     (Some \<lparr>originalname = ''notes.TXT'', buffer = [37, 80, 68, 70]\<rparr>) =
     (Json 400 (JObj [(''error'', JStr ''Unsupported file type. Please upload a .docx or .pdf file.'')]),
      [])
   \<and> own_member (JObj [(''error'', JStr ''Unsupported file type. Please upload a .docx or .pdf file.'')])
        ''supportedTypes'' = JUndefined"
  by code_simp

subsection \<open>Blank extracted text\<close>

text \<open>
  C3, as amended. Take an upload whose extraction resolves to a text \<open>t\<close> that is empty or
  made of white space only. In both enhanced servers, when the lower-cased name ends in
  \<open>.docx\<close> or \<open>.pdf\<close>, the handler answers 422 and \<open>extractedLength\<close> is the length of \<open>t\<close>
  as extracted, before trimming. The basic server has no such check: when the name as
  written ends in \<open>.docx\<close> or \<open>.pdf\<close> it answers 200 with \<open>t\<close> as the text.
\<close>

theorem upload_blank_text:
  assumes "\<forall>c \<in> set t. is_space c"
  shows
    "(endsWith (toLowerCase (originalname f)) ''.docx''
        \<and> mammoth_extractRawText L (buffer f) = Inr (Some t)
      \<or> endsWith (toLowerCase (originalname f)) ''.pdf'' \<and> pdf L (buffer f) = Inr (Some t)
      \<longrightarrow> fst (upload_part0 L clk (Some f)) =
            Json 422 (JObj [(''error'', JStr ''No text extracted.''),
                            (''extractedLength'', JNum (int (length t)))])
        \<and> fst (upload_part1 L clk (Some f)) =
            Json 422 (JObj [(''error'', JStr
               ''No text content could be extracted from the file. The file may be empty or contain only images.''),
                            (''extractedLength'', JNum (int (length t)))]))
     \<and> (endsWith (originalname f) ''.docx'' \<and> mammoth_extractRawText L (buffer f) = Inr (Some t)
      \<or> endsWith (originalname f) ''.pdf'' \<and> pdf L (buffer f) = Inr (Some t)
      \<longrightarrow> fst (upload_server L (Some f)) = Json 200 (JObj [(''text'', JStr t)]))"
proof -
  have blank: "trim t = []" using assms by (simp add: trim_empty_iff)
  show ?thesis
    using blank
    by (auto simp: upload_part0_def upload_part1_def upload_server_def extract_part0_def
        extract_part1_def res_json_def dest: pdf_not_docx)
qed

theorem upload_blank_text_witness:
  "is_space (CHR '' '') \<and> is_space (CHR 0x0A) \<and> is_space (CHR 0x09)
   \<and> endsWith (toLowerCase ''scan.pdf'') ''.pdf''
   \<and> endsWith ''scan.pdf'' ''.pdf''
   \<and> pdf (stub_libs (Inr (Some [CHR '' '', CHR 0x0A, CHR 0x09]))) [37, 80, 68, 70]
       = Inr (Some [CHR '' '', CHR 0x0A, CHR 0x09])
   \<and> fst (upload_part0 (stub_libs (Inr (Some [CHR '' '', CHR 0x0A, CHR 0x09]))) sample_clock
            (Some \<lparr>originalname = ''scan.pdf'', buffer = [37, 80, 68, 70]\<rparr>)) =
       Json 422 (JObj [(''error'', JStr ''No text extracted.''), (''extractedLength'', JNum 3)])
   \<and> fst (upload_part1 (stub_libs (Inr (Some [CHR '' '', CHR 0x0A, CHR 0x09]))) sample_clock
            (Some \<lparr>originalname = ''scan.pdf'', buffer = [37, 80, 68, 70]\<rparr>)) =
       Json 422 (JObj [(''error'', JStr
          ''No text content could be extracted from the file. The file may be empty or contain only images.''),
                       (''extractedLength'', JNum 3)])
   \<and> fst (upload_server (stub_libs (Inr (Some [CHR '' '', CHR 0x0A, CHR 0x09])))
            (Some \<lparr>originalname = ''scan.pdf'', buffer = [37, 80, 68, 70]\<rparr>)) =
       Json 200 (JObj [(''text'', JStr [CHR '' '', CHR 0x0A, CHR 0x09])])"
proof -
  have s1: "is_space (CHR '' '')" and s2: "is_space (CHR 0x0A)" and s3: "is_space (CHR 0x09)"
    by code_simp+
  have h1: "\<forall>c \<in> set [CHR '' '', CHR 0x0A, CHR 0x09]. is_space c" using s1 s2 s3 by simp
  have h2: "endsWith (toLowerCase ''scan.pdf'') ''.pdf''" by code_simp
  have h3: "endsWith ''scan.pdf'' ''.pdf''" by code_simp
  show ?thesis
    using upload_blank_text [OF h1,
        of "\<lparr>originalname = ''scan.pdf'', buffer = [37, 80, 68, 70]\<rparr>"
           "stub_libs (Inr (Some [CHR '' '', CHR 0x0A, CHR 0x09]))" sample_clock] s1 s2 s3 h2 h3
    by (simp add: stub_libs_def answer_def)
qed

text \<open>The basic server on a \<open>.pdf\<close> upload whose text is a space, a line feed and a tab:
  status 200, not 422.\<close>

theorem upload_server_blank_text_accepted:
  "fst (upload_server (stub_libs (Inr (Some [CHR '' '', CHR 0x0A, CHR 0x09])))
          (Some \<lparr>originalname = ''scan.pdf'', buffer = [37, 80, 68, 70]\<rparr>)) =
     Json 200 (JObj [(''text'', JStr [CHR '' '', CHR 0x0A, CHR 0x09])])"
  by code_simp

subsection \<open>Oversized uploads\<close>

text \<open>
  C4, as amended. In both enhanced servers, for every uploaded file whose byte length
  exceeds 10 MiB, \<open>multer\<close> rejects the request with \<open>LIMIT_FILE_SIZE\<close> while parsing the
  multipart body, the error middleware answers 413, the handler does not run and no
  extraction library is called. The basic server configures no size limit: there the
  same file is handed to the handler like any other.
\<close>

theorem oversized_upload:
  assumes "req_multipart req = Inr (Some f)"
    and "10 * 1024 * 1024 < length (buffer f)"
  shows
    "multer_single upload_limit_part0 req = Inl (MulterError ''LIMIT_FILE_SIZE'' ''File too large'')
     \<and> upload_route_part0 L clk req =
         (Json 413 (JObj [(''error'', JStr ''File too large. Max size is 10MB.'')]), [])
     \<and> multer_single upload_limit_part1 req = Inl (MulterError ''LIMIT_FILE_SIZE'' ''File too large'')
     \<and> upload_route_part1 L clk req =
         (Json 413 (JObj [(''error'', JStr ''File too large. Maximum size is 10MB.''),
                          (''maxSize'', JStr ''10MB'')]), [])
     \<and> upload_route_server L req = upload_server L (Some f)"
  using assms
  by (simp add: multer_single_def upload_limit_part0_def upload_limit_part1_def
      upload_limit_server_def upload_route_part0_def upload_route_part1_def
      upload_route_server_def error_middleware_part0_def error_middleware_part1_def res_json_def)

theorem oversized_upload_witness:
  "req_multipart
     \<lparr>req_method = ''POST'', req_url = ''/upload'', req_body = Inr (JObj []),
      req_multipart = Inr (Some \<lparr>originalname = ''big.pdf'', buffer = replicate 10485761 0\<rparr>)\<rparr>
     = Inr (Some \<lparr>originalname = ''big.pdf'', buffer = replicate 10485761 0\<rparr>)
   \<and> 10 * 1024 * 1024 < length (buffer \<lparr>originalname = ''big.pdf'', buffer = replicate 10485761 0\<rparr>)
   \<and> upload_route_part0 (stub_libs (Inr (Some ''Goals''))) sample_clock
        \<lparr>req_method = ''POST'', req_url = ''/upload'', req_body = Inr (JObj []),
         req_multipart = Inr (Some \<lparr>originalname = ''big.pdf'', buffer = replicate 10485761 0\<rparr>)\<rparr> =
       (Json 413 (JObj [(''error'', JStr ''File too large. Max size is 10MB.'')]), [])
   \<and> upload_route_part1 (stub_libs (Inr (Some ''Goals''))) sample_clock
        \<lparr>req_method = ''POST'', req_url = ''/upload'', req_body = Inr (JObj []),
         req_multipart = Inr (Some \<lparr>originalname = ''big.pdf'', buffer = replicate 10485761 0\<rparr>)\<rparr> =
       (Json 413 (JObj [(''error'', JStr ''File too large. Maximum size is 10MB.''),
                        (''maxSize'', JStr ''10MB'')]), [])"
proof -
  have h1: "req_multipart
     \<lparr>req_method = ''POST'', req_url = ''/upload'', req_body = Inr (JObj []),
      req_multipart = Inr (Some \<lparr>originalname = ''big.pdf'', buffer = replicate 10485761 0\<rparr>)\<rparr>
     = Inr (Some \<lparr>originalname = ''big.pdf'', buffer = replicate 10485761 0\<rparr>)"
    by simp
  have h2: "10 * 1024 * 1024
      < length (buffer \<lparr>originalname = ''big.pdf'', buffer = replicate 10485761 (0 :: 8 word)\<rparr>)"
    by simp
  show ?thesis
    using oversized_upload [OF h1 h2, of "stub_libs (Inr (Some ''Goals''))" sample_clock] h2
    by simp
qed

text \<open>The basic server on a \<open>.pdf\<close> upload of 10 MiB and one byte: the handler runs,
  calls the PDF library on the whole buffer and answers 200.\<close>

theorem upload_route_server_no_limit:
  "upload_route_server (stub_libs (Inr (Some ''Goals'')))
     \<lparr>req_method = ''POST'', req_url = ''/upload'', req_body = Inr (JObj []),
      req_multipart = Inr (Some \<lparr>originalname = ''big.pdf'', buffer = replicate 10485761 0\<rparr>)\<rparr> =
     (Json 200 (JObj [(''text'', JStr ''Goals'')]), [PdfParse (replicate 10485761 0)])"
  by (simp add: upload_route_server_def multer_single_def upload_limit_server_def
      upload_server_def endsWith_def stub_libs_def answer_def res_json_def)

subsection \<open>Dispatch on the suffix\<close>

text \<open>
  C5, as amended. In both enhanced servers the dispatch is decided by the suffix of the
  lower-cased name: a name ending in any casing of \<open>.docx\<close> is handed to the DOCX
  library, a name ending in any casing of \<open>.pdf\<close> to the PDF library, and neither is
  answered with the 400 of an unsupported type. In the basic server the dispatch is
  decided by the suffix of the name as written, so only the lower-case spellings
  \<open>.docx\<close> and \<open>.pdf\<close> reach a library.
\<close>

theorem upload_dispatch:
  "(toLowerCase dx = ''.docx'' \<longrightarrow>
       snd (upload_part0 L clk (Some \<lparr>originalname = stem @ dx, buffer = b\<rparr>)) = [Mammoth b]
     \<and> status_of (fst (upload_part0 L clk (Some \<lparr>originalname = stem @ dx, buffer = b\<rparr>))) \<noteq> Some 400
     \<and> snd (upload_part1 L clk (Some \<lparr>originalname = stem @ dx, buffer = b\<rparr>)) = [Mammoth b]
     \<and> status_of (fst (upload_part1 L clk (Some \<lparr>originalname = stem @ dx, buffer = b\<rparr>))) \<noteq> Some 400)
   \<and> (toLowerCase px = ''.pdf'' \<longrightarrow>
       snd (upload_part0 L clk (Some \<lparr>originalname = stem @ px, buffer = b\<rparr>)) = [PdfParse b]
     \<and> status_of (fst (upload_part0 L clk (Some \<lparr>originalname = stem @ px, buffer = b\<rparr>))) \<noteq> Some 400
     \<and> snd (upload_part1 L clk (Some \<lparr>originalname = stem @ px, buffer = b\<rparr>)) = [PdfParse b]
     \<and> status_of (fst (upload_part1 L clk (Some \<lparr>originalname = stem @ px, buffer = b\<rparr>))) \<noteq> Some 400)
   \<and> snd (upload_part0 L clk (Some f)) =
       (if endsWith (toLowerCase (originalname f)) ''.docx'' then [Mammoth (buffer f)]
        else if endsWith (toLowerCase (originalname f)) ''.pdf'' then [PdfParse (buffer f)]
        else [])
   \<and> snd (upload_part1 L clk (Some f)) =
       (if endsWith (toLowerCase (originalname f)) ''.docx'' then [Mammoth (buffer f)]
        else if endsWith (toLowerCase (originalname f)) ''.pdf'' then [PdfParse (buffer f)]
        else [])
   \<and> snd (upload_server L (Some f)) =
       (if endsWith (originalname f) ''.docx'' then [Mammoth (buffer f)]
        else if endsWith (originalname f) ''.pdf'' then [PdfParse (buffer f)]
        else [])"
proof -
  have docx: "endsWith (toLowerCase (stem @ dx)) ''.docx''" if "toLowerCase dx = ''.docx''"
    using that by (auto simp: endsWith_iff toLowerCase_append)
  have pdf: "endsWith (toLowerCase (stem @ px)) ''.pdf''" if "toLowerCase px = ''.pdf''"
    using that by (auto simp: endsWith_iff toLowerCase_append)
  have not_docx: "\<not> endsWith (toLowerCase (stem @ px)) ''.docx''" if "toLowerCase px = ''.pdf''"
    using pdf [OF that] by (rule pdf_not_docx)
  have d0: "snd (upload_part0 L clk (Some \<lparr>originalname = stem @ dx, buffer = b\<rparr>)) = [Mammoth b]
     \<and> status_of (fst (upload_part0 L clk (Some \<lparr>originalname = stem @ dx, buffer = b\<rparr>))) \<noteq> Some 400"
    if "toLowerCase dx = ''.docx''"
    using docx [OF that]
    by (simp add: upload_part0_def extract_part0_def res_json_def split: sum.split option.split)
  have d1: "snd (upload_part1 L clk (Some \<lparr>originalname = stem @ dx, buffer = b\<rparr>)) = [Mammoth b]
     \<and> status_of (fst (upload_part1 L clk (Some \<lparr>originalname = stem @ dx, buffer = b\<rparr>))) \<noteq> Some 400"
    if "toLowerCase dx = ''.docx''"
    using docx [OF that]
    by (simp add: upload_part1_def extract_part1_def res_json_def split: sum.split option.split)
  have p0: "snd (upload_part0 L clk (Some \<lparr>originalname = stem @ px, buffer = b\<rparr>)) = [PdfParse b]
     \<and> status_of (fst (upload_part0 L clk (Some \<lparr>originalname = stem @ px, buffer = b\<rparr>))) \<noteq> Some 400"
    if "toLowerCase px = ''.pdf''"
    using pdf [OF that] not_docx [OF that]
    by (simp add: upload_part0_def extract_part0_def res_json_def split: sum.split option.split)
  have p1: "snd (upload_part1 L clk (Some \<lparr>originalname = stem @ px, buffer = b\<rparr>)) = [PdfParse b]
     \<and> status_of (fst (upload_part1 L clk (Some \<lparr>originalname = stem @ px, buffer = b\<rparr>))) \<noteq> Some 400"
    if "toLowerCase px = ''.pdf''"
    using pdf [OF that] not_docx [OF that]
    by (simp add: upload_part1_def extract_part1_def res_json_def split: sum.split option.split)
  have g0: "snd (upload_part0 L clk (Some f)) =
       (if endsWith (toLowerCase (originalname f)) ''.docx'' then [Mammoth (buffer f)]
        else if endsWith (toLowerCase (originalname f)) ''.pdf'' then [PdfParse (buffer f)]
        else [])"
    by (simp add: upload_part0_def extract_part0_def split: sum.split option.split)
  have g1: "snd (upload_part1 L clk (Some f)) =
       (if endsWith (toLowerCase (originalname f)) ''.docx'' then [Mammoth (buffer f)]
        else if endsWith (toLowerCase (originalname f)) ''.pdf'' then [PdfParse (buffer f)]
        else [])"
    by (simp add: upload_part1_def extract_part1_def split: sum.split option.split)
  have gs: "snd (upload_server L (Some f)) =
       (if endsWith (originalname f) ''.docx'' then [Mammoth (buffer f)]
        else if endsWith (originalname f) ''.pdf'' then [PdfParse (buffer f)]
        else [])"
    by (simp add: upload_server_def split: sum.split option.split)
  show ?thesis using d0 d1 p0 p1 g0 g1 gs by blast
qed

theorem upload_dispatch_witness:
  "toLowerCase ''.DOCX'' = ''.docx'' \<and> toLowerCase ''.Pdf'' = ''.pdf''
   \<and> snd (upload_part0 (stub_libs (Inr (Some ''Goals''))) sample_clock
            (Some \<lparr>originalname = ''REPORT'' @ ''.DOCX'', buffer = [80, 75, 3, 4]\<rparr>))
       = [Mammoth [80, 75, 3, 4]]
   \<and> snd (upload_part1 (stub_libs (Inr (Some ''Goals''))) sample_clock
            (Some \<lparr>originalname = ''REPORT'' @ ''.Pdf'', buffer = [80, 75, 3, 4]\<rparr>))
       = [PdfParse [80, 75, 3, 4]]"
proof -
  have h1: "toLowerCase ''.DOCX'' = ''.docx''" by code_simp
  have h2: "toLowerCase ''.Pdf'' = ''.pdf''" by code_simp
  show ?thesis
    using upload_dispatch [of "''.DOCX''" "stub_libs (Inr (Some ''Goals''))" sample_clock
        "''REPORT''" "[80, 75, 3, 4]" "''.Pdf''"] h1 h2
    by blast
qed

text \<open>The basic server on the name \<open>REPORT.DOCX\<close>: rejected as unsupported, no library
  called.\<close>

theorem upload_server_case_sensitive:
  "upload_server (stub_libs (Inr (Some ''Goals'')))
     (Some \<lparr>originalname = ''REPORT.DOCX'', buffer = [80, 75, 3, 4]\<rparr>) =
     (Json 400 (JObj [(''error'', JStr ''Unsupported file type. Please upload a .docx or .pdf file.'')]),
      [])"
  by code_simp

subsection \<open>\<open>/analyze\<close>\<close>

text \<open>What \<open>decimal\<close> prints: it is the one string that is the decimal numeral of its
  argument.\<close>

lemma decimal_not_empty: "decimal n \<noteq> []"
  by (subst decimal.simps) simp

lemma decimal_digits: "list_all is_digit (decimal n)"
proof (induction n rule: decimal.induct)
  case (1 n)
  show ?case
  proof (cases "n < 10")
    case True
    then show ?thesis by (subst decimal.simps) (simp add: is_digit_def)
  next
    case False
    have "n mod 10 < 10" by simp
    then have "is_digit (char_of (48 + n mod 10))" by (simp add: is_digit_def)
    with False 1 show ?thesis by (subst decimal.simps) simp
  qed
qed

lemma decimal_value_snoc: "decimal_value (s @ [c]) = 10 * decimal_value s + (of_char c - 48)"
  by (simp add: decimal_value_def)

lemma decimal_value_decimal: "decimal_value (decimal n) = n"
proof (induction n rule: decimal.induct)
  case (1 n)
  show ?case
  proof (cases "n < 10")
    case True
    then show ?thesis by (subst decimal.simps) (simp add: decimal_value_def)
  next
    case False
    have "n mod 10 < 10" by simp
    then have "(of_char (char_of (48 + n mod 10)) :: nat) - 48 = n mod 10" by simp
    with False 1 show ?thesis by (subst decimal.simps) (simp add: decimal_value_snoc)
  qed
qed

lemma decimal_leading_zero: "hd (decimal n) = CHR ''0'' \<Longrightarrow> n = 0"
proof (induction n rule: decimal.induct)
  case (1 n)
  show ?case
  proof (cases "n < 10")
    case True
    have "(of_char (hd (decimal n)) :: nat) = 48 + n"
      using True by (subst decimal.simps) simp
    with "1.prems" show ?thesis by simp
  next
    case False
    then have "hd (decimal n) = hd (decimal (n div 10))"
      by (subst decimal.simps) (simp add: decimal_not_empty)
    with "1.prems" False "1.IH" have "n div 10 = 0" by simp
    with False show ?thesis by simp
  qed
qed

lemma decimal_zero: "decimal 0 = ''0''"
  by code_simp

lemma decimal_is_decimal_of: "is_decimal_of (decimal n) n"
  unfolding is_decimal_of_def
  using decimal_not_empty decimal_digits decimal_value_decimal decimal_leading_zero decimal_zero
  by metis

lemma digit_char_of: "is_digit c \<Longrightarrow> char_of (48 + ((of_char c :: nat) - 48)) = c"
  by (simp add: is_digit_def)

lemma decimal_value_zero_hd:
  "s \<noteq> [] \<Longrightarrow> list_all is_digit s \<Longrightarrow> decimal_value s = 0 \<Longrightarrow> hd s = CHR ''0''"
proof (induction s rule: rev_induct)
  case Nil
  then show ?case by simp
next
  case (snoc c s)
  from snoc.prems have dc: "is_digit c" and v: "decimal_value s = 0"
    and c0: "(of_char c :: nat) - 48 = 0"
    by (simp_all add: decimal_value_snoc)
  show ?case
  proof (cases "s = []")
    case True
    have z: "char_of (48 :: nat) = CHR ''0''" by code_simp
    have "char_of (48 + ((of_char c :: nat) - 48)) = c" using dc by (rule digit_char_of)
    then have "c = CHR ''0''" unfolding c0 by (simp add: z)
    with True show ?thesis by simp
  next
    case False
    with snoc v show ?thesis by simp
  qed
qed

lemma is_decimal_of_unique: "is_decimal_of s n \<Longrightarrow> s = decimal n"
proof (induction n arbitrary: s rule: decimal.induct)
  case (1 n)
  from "1.prems" have ne: "s \<noteq> []" and dg: "list_all is_digit s"
    and lz: "hd s = CHR ''0'' \<longrightarrow> s = ''0''" and val: "decimal_value s = n"
    by (simp_all add: is_decimal_of_def)
  from ne obtain xs c where s: "s = xs @ [c]" by (metis rev_exhaust)
  from dg s have dxs: "list_all is_digit xs" and dc: "is_digit c" by simp_all
  let ?d = "(of_char c :: nat) - 48"
  have d10: "?d < 10" using dc by (auto simp: is_digit_def)
  have v: "n = 10 * decimal_value xs + ?d" using val s by (simp add: decimal_value_snoc)
  have c: "c = char_of (48 + ?d)" using dc by (simp add: digit_char_of)
  show ?case
  proof (cases "n < 10")
    case True
    with v have vx: "decimal_value xs = 0" and dn: "?d = n" by simp_all
    have "xs = []"
    proof (rule ccontr)
      assume xne: "xs \<noteq> []"
      then have "hd xs = CHR ''0''" using dxs vx by (rule decimal_value_zero_hd)
      then have "hd s = CHR ''0''" using xne s by simp
      with lz have "s = ''0''" by simp
      with s xne show False by simp
    qed
    with s c dn True show ?thesis by (subst decimal.simps) simp
  next
    case False
    from v d10 have q: "decimal_value xs = n div 10" and r: "?d = n mod 10" by auto
    have xne: "xs \<noteq> []"
    proof
      assume "xs = []"
      then have "decimal_value xs = 0" by (simp add: decimal_value_def)
      with q False show False by simp
    qed
    have "hd xs \<noteq> CHR ''0''"
    proof
      assume "hd xs = CHR ''0''"
      then have "hd s = CHR ''0''" using xne s by simp
      with lz have "s = ''0''" by simp
      with s xne show False by simp
    qed
    then have "is_decimal_of xs (n div 10)"
      using xne dxs q by (simp add: is_decimal_of_def)
    with False "1.IH" have "xs = decimal (n div 10)" by simp
    with s c r False show ?thesis by (subst decimal.simps) simp
  qed
qed

lemma count_of_string: "to_string (or_else (JNum (int n)) (JNum 0)) = Some (decimal n)"
  by (simp add: or_else_def)


lemma analyze_two_strings:
  assumes "map_of kvs ''accommodations'' = Some (JStr a)"
    and "map_of kvs ''lessonPlan'' = Some (JStr l)"
  shows "analyze (JObj kvs) =
          Json 200 (JObj [(''message'', JStr ''Analysis received.''),
            (''summary'', JStr (''Accommodations and lesson plan received ('' @ decimal (length a)
                                @ '' / '' @ decimal (length l) @ '' characters).'')),
            (''received'', JObj [(''accommodations'', JStr a), (''lessonPlan'', JStr l)])])"
  using assms by (simp add: analyze_def Let_def count_of_string res_json_def)

text \<open>
  C6. For every body whose \<open>accommodations\<close> and \<open>lessonPlan\<close> members are strings \<open>a\<close>
  and \<open>l\<close>, the handler answers 200, \<open>received\<close> is \<open>{accommodations: a, lessonPlan: l}\<close>
  and the summary reads
  \<open>Accommodations and lesson plan received (<m> / <n> characters).\<close>, where \<open>m\<close> and \<open>n\<close>
  are the decimal numerals of the lengths of \<open>a\<close> and \<open>l\<close>. For \<open>a = "abc"\<close> and
  \<open>l = ""\<close> the summary contains \<open>(3 / 0 characters)\<close>.
\<close>

theorem analyze_strings:
  "(map_of kvs ''accommodations'' = Some (JStr a) \<and> map_of kvs ''lessonPlan'' = Some (JStr l)
    \<longrightarrow> (\<exists>m. is_decimal_of m (length a)) \<and> (\<exists>n. is_decimal_of n (length l))
        \<and> (\<forall>m n. is_decimal_of m (length a) \<and> is_decimal_of n (length l)
          \<longrightarrow> analyze (JObj kvs) =
              Json 200 (JObj [(''message'', JStr ''Analysis received.''),
                (''summary'', JStr (''Accommodations and lesson plan received ('' @ m
                                    @ '' / '' @ n @ '' characters).'')),
                (''received'', JObj [(''accommodations'', JStr a), (''lessonPlan'', JStr l)])])))
   \<and> (map_of kvs ''accommodations'' = Some (JStr ''abc'') \<and> map_of kvs ''lessonPlan'' = Some (JStr '''')
    \<longrightarrow> analyze (JObj kvs) =
          Json 200 (JObj [(''message'', JStr ''Analysis received.''),
            (''summary'', JStr (''Accommodations and lesson plan received '' @ ''(3 / 0 characters)''
                                @ ''.'')),
            (''received'', JObj [(''accommodations'', JStr ''abc''), (''lessonPlan'', JStr '''')])]))"
proof (intro conjI impI)
  show "\<exists>m. is_decimal_of m (length a)" using decimal_is_decimal_of ..
  show "\<exists>n. is_decimal_of n (length l)" using decimal_is_decimal_of ..
next
  assume members: "map_of kvs ''accommodations'' = Some (JStr a)
    \<and> map_of kvs ''lessonPlan'' = Some (JStr l)"
  show "\<forall>m n. is_decimal_of m (length a) \<and> is_decimal_of n (length l)
          \<longrightarrow> analyze (JObj kvs) =
              Json 200 (JObj [(''message'', JStr ''Analysis received.''),
                (''summary'', JStr (''Accommodations and lesson plan received ('' @ m
                                    @ '' / '' @ n @ '' characters).'')),
                (''received'', JObj [(''accommodations'', JStr a), (''lessonPlan'', JStr l)])])"
  proof (intro allI impI)
    fix m n
    assume "is_decimal_of m (length a) \<and> is_decimal_of n (length l)"
    then have "m = decimal (length a)" and "n = decimal (length l)"
      by (simp_all add: is_decimal_of_unique)
    then show "analyze (JObj kvs) =
              Json 200 (JObj [(''message'', JStr ''Analysis received.''),
                (''summary'', JStr (''Accommodations and lesson plan received ('' @ m
                                    @ '' / '' @ n @ '' characters).'')),
                (''received'', JObj [(''accommodations'', JStr a), (''lessonPlan'', JStr l)])])"
      using members analyze_two_strings [of kvs a l] by simp
  qed
next
  assume members: "map_of kvs ''accommodations'' = Some (JStr ''abc'')
    \<and> map_of kvs ''lessonPlan'' = Some (JStr '''')"
  have three: "decimal (length ''abc'') = ''3''" by code_simp
  have zero: "decimal (length '''') = ''0''" by code_simp
  show "analyze (JObj kvs) =
          Json 200 (JObj [(''message'', JStr ''Analysis received.''),
            (''summary'', JStr (''Accommodations and lesson plan received '' @ ''(3 / 0 characters)''
                                @ ''.'')),
            (''received'', JObj [(''accommodations'', JStr ''abc''), (''lessonPlan'', JStr '''')])])"
    using members analyze_two_strings [of kvs "''abc''" "''''", unfolded three zero] by simp
qed

theorem analyze_strings_witness:
  "map_of [(''accommodations'', JStr ''abc''), (''lessonPlan'', JStr ''''), (''grade'', JNum 4)]
      ''accommodations'' = Some (JStr ''abc'')
   \<and> map_of [(''accommodations'', JStr ''abc''), (''lessonPlan'', JStr ''''), (''grade'', JNum 4)]
      ''lessonPlan'' = Some (JStr '''')
   \<and> analyze (JObj [(''accommodations'', JStr ''abc''), (''lessonPlan'', JStr ''''), (''grade'', JNum 4)]) =
       Json 200 (JObj [(''message'', JStr ''Analysis received.''),
         (''summary'', JStr ''Accommodations and lesson plan received (3 / 0 characters).''),
         (''received'', JObj [(''accommodations'', JStr ''abc''), (''lessonPlan'', JStr '''')])])
   \<and> is_decimal_of ''13'' (length ''Extended time'')
   \<and> is_decimal_of ''28'' (length ''Fractions on the number line'')
   \<and> analyze (JObj [(''accommodations'', JStr ''Extended time''),
                     (''lessonPlan'', JStr ''Fractions on the number line'')]) =
       Json 200 (JObj [(''message'', JStr ''Analysis received.''),
         (''summary'', JStr ''Accommodations and lesson plan received (13 / 28 characters).''),
         (''received'', JObj [(''accommodations'', JStr ''Extended time''),
                              (''lessonPlan'', JStr ''Fractions on the number line'')])])"
proof -
  have m: "is_decimal_of ''13'' (length ''Extended time'')" by code_simp
  have n: "is_decimal_of ''28'' (length ''Fractions on the number line'')" by code_simp
  have first: "analyze (JObj [(''accommodations'', JStr ''abc''), (''lessonPlan'', JStr ''''),
                              (''grade'', JNum 4)]) =
       Json 200 (JObj [(''message'', JStr ''Analysis received.''),
         (''summary'', JStr ''Accommodations and lesson plan received (3 / 0 characters).''),
         (''received'', JObj [(''accommodations'', JStr ''abc''), (''lessonPlan'', JStr '''')])])"
    using analyze_strings
      [of "[(''accommodations'', JStr ''abc''), (''lessonPlan'', JStr ''''), (''grade'', JNum 4)]"
          "''abc''" "''''", THEN conjunct2]
    by simp
  have members: "map_of [(''accommodations'', JStr ''Extended time''),
            (''lessonPlan'', JStr ''Fractions on the number line'')] ''accommodations''
        = Some (JStr ''Extended time'')
      \<and> map_of [(''accommodations'', JStr ''Extended time''),
            (''lessonPlan'', JStr ''Fractions on the number line'')] ''lessonPlan''
        = Some (JStr ''Fractions on the number line'')"
    by simp
  have second: "analyze (JObj [(''accommodations'', JStr ''Extended time''),
                     (''lessonPlan'', JStr ''Fractions on the number line'')]) =
       Json 200 (JObj [(''message'', JStr ''Analysis received.''),
         (''summary'', JStr ''Accommodations and lesson plan received (13 / 28 characters).''),
         (''received'', JObj [(''accommodations'', JStr ''Extended time''),
                              (''lessonPlan'', JStr ''Fractions on the number line'')])])"
    using analyze_strings
      [of "[(''accommodations'', JStr ''Extended time''),
            (''lessonPlan'', JStr ''Fractions on the number line'')]"
          "''Extended time''" "''Fractions on the number line''", THEN conjunct1, THEN mp,
       OF members, THEN conjunct2, THEN conjunct2, THEN spec, THEN spec, THEN mp,
       OF conjI [OF m n]]
    by simp
  show ?thesis using first second m n by simp
qed




subsection \<open>Requests that match no route\<close>

text \<open>
  C7, as amended. For every request that the CORS middleware passes on and that matches
  none of the registered routes, the enhanced server without \<open>/analyze\<close> answers 404 with
  \<open>availableEndpoints\<close> equal to \<open>["GET /", "GET /health", "POST /upload"]\<close>; the enhanced
  server with \<open>/analyze\<close> answers 404 with
  \<open>["GET /", "GET /health", "POST /upload", "POST /analyze"]\<close> provided that, in addition,
  its JSON body parser accepted the request. Each list is the same constant for every
  such request.
\<close>

theorem unmatched_request:
  "(\<not> preflight X req \<and> req_body req = Inr body
      \<and> \<not> matches X ''GET'' ''/health'' req \<and> \<not> matches X ''GET'' ''/'' req
      \<and> \<not> matches X ''POST'' ''/upload'' req \<and> \<not> matches X ''POST'' ''/analyze'' req
    \<longrightarrow> app_part0 X L clk req =
          (Json 404 (JObj [(''error'', JStr ''Endpoint not found''),
             (''availableEndpoints'',
              JArr [JStr ''GET /'', JStr ''GET /health'', JStr ''POST /upload'',
                    JStr ''POST /analyze''])]), []))
   \<and> (\<not> preflight X req
      \<and> \<not> matches X ''GET'' ''/health'' req \<and> \<not> matches X ''GET'' ''/'' req
      \<and> \<not> matches X ''POST'' ''/upload'' req
    \<longrightarrow> app_part1 X L clk req =
          (Json 404 (JObj [(''error'', JStr ''Endpoint not found''),
             (''availableEndpoints'',
              JArr [JStr ''GET /'', JStr ''GET /health'', JStr ''POST /upload''])]), []))"
  by (simp add: app_part0_def app_part1_def not_found_part0_def not_found_part1_def
      availableEndpoints_part0_def availableEndpoints_part1_def res_json_def)

theorem unmatched_request_witness:
  "\<not> preflight literal_express
       \<lparr>req_method = ''GET'', req_url = ''/nonexistent'', req_body = Inr (JObj []),
        req_multipart = Inr None\<rparr>
   \<and> \<not> matches literal_express ''GET'' ''/health''
       \<lparr>req_method = ''GET'', req_url = ''/nonexistent'', req_body = Inr (JObj []),
        req_multipart = Inr None\<rparr>
   \<and> \<not> matches literal_express ''GET'' ''/''
       \<lparr>req_method = ''GET'', req_url = ''/nonexistent'', req_body = Inr (JObj []),
        req_multipart = Inr None\<rparr>
   \<and> \<not> matches literal_express ''POST'' ''/upload''
       \<lparr>req_method = ''GET'', req_url = ''/nonexistent'', req_body = Inr (JObj []),
        req_multipart = Inr None\<rparr>
   \<and> \<not> matches literal_express ''POST'' ''/analyze''
       \<lparr>req_method = ''GET'', req_url = ''/nonexistent'', req_body = Inr (JObj []),
        req_multipart = Inr None\<rparr>
   \<and> app_part0 literal_express (stub_libs (Inr (Some ''Goals''))) sample_clock
       \<lparr>req_method = ''GET'', req_url = ''/nonexistent'', req_body = Inr (JObj []),
        req_multipart = Inr None\<rparr> =
       (Json 404 (JObj [(''error'', JStr ''Endpoint not found''),
          (''availableEndpoints'',
           JArr [JStr ''GET /'', JStr ''GET /health'', JStr ''POST /upload'',
                 JStr ''POST /analyze''])]), [])
   \<and> app_part1 literal_express (stub_libs (Inr (Some ''Goals''))) sample_clock
       \<lparr>req_method = ''GET'', req_url = ''/nonexistent'', req_body = Inr (JObj []),
        req_multipart = Inr None\<rparr> =
       (Json 404 (JObj [(''error'', JStr ''Endpoint not found''),
          (''availableEndpoints'',
           JArr [JStr ''GET /'', JStr ''GET /health'', JStr ''POST /upload''])]), [])"
  using unmatched_request
    [of literal_express
        "\<lparr>req_method = ''GET'', req_url = ''/nonexistent'', req_body = Inr (JObj []),
          req_multipart = Inr None\<rparr>"
        "JObj []" "stub_libs (Inr (Some ''Goals''))" sample_clock]
  by (simp add: literal_express_def is_options_def same_method_path_def)

text \<open>
  In the server with \<open>/analyze\<close>, \<open>express.json()\<close> runs before the routes for every
  path. A \<open>POST /nonexistent\<close> whose body the parser rejects matches no route and is
  answered by the error middleware with 500, not with 404.
\<close>

theorem unmatched_request_with_rejected_body:
  "\<not> matches literal_express ''GET'' ''/health''
       \<lparr>req_method = ''POST'', req_url = ''/nonexistent'',
        req_body = Inl (Error ''Unexpected end of JSON input''), req_multipart = Inr None\<rparr>
   \<and> \<not> matches literal_express ''GET'' ''/''
       \<lparr>req_method = ''POST'', req_url = ''/nonexistent'',
        req_body = Inl (Error ''Unexpected end of JSON input''), req_multipart = Inr None\<rparr>
   \<and> \<not> matches literal_express ''POST'' ''/upload''
       \<lparr>req_method = ''POST'', req_url = ''/nonexistent'',
        req_body = Inl (Error ''Unexpected end of JSON input''), req_multipart = Inr None\<rparr>
   \<and> \<not> matches literal_express ''POST'' ''/analyze''
       \<lparr>req_method = ''POST'', req_url = ''/nonexistent'',
        req_body = Inl (Error ''Unexpected end of JSON input''), req_multipart = Inr None\<rparr>
   \<and> app_part0 literal_express (stub_libs (Inr (Some ''Goals''))) sample_clock
       \<lparr>req_method = ''POST'', req_url = ''/nonexistent'',
        req_body = Inl (Error ''Unexpected end of JSON input''), req_multipart = Inr None\<rparr> =
       (Json 500 (JObj [(''error'', JStr ''Internal server error''),
                        (''timestamp'', JStr ''2025-01-01T00:00:00.042Z'')]), [])"
  by (simp add: app_part0_def literal_express_def is_options_def same_method_path_def
      error_middleware_part0_def res_json_def sample_clock_def)

subsection \<open>The listen port\<close>

text \<open>
  C8, as amended. Both enhanced servers read \<open>PORT\<close> from the environment at startup:
  when it is unset or empty they listen on 3001, and for every environment where it is
  set to a non-empty value they use that value. The basic server does not read the
  environment and always listens on 3001.
\<close>

theorem listen_port:
  "port_part0 None = JNum 3001 \<and> port_part1 None = JNum 3001
   \<and> port_part0 (Some []) = JNum 3001 \<and> port_part1 (Some []) = JNum 3001
   \<and> (s \<noteq> [] \<longrightarrow> port_part0 (Some s) = JStr s \<and> port_part1 (Some s) = JStr s)
   \<and> port_server env_PORT = JNum 3001"
  by (simp add: port_part0_def port_part1_def port_server_def)

theorem listen_port_witness:
  "''8080'' \<noteq> [] \<and> port_part0 (Some ''8080'') = JStr ''8080''
   \<and> port_part1 (Some ''8080'') = JStr ''8080''"
  using listen_port [of "''8080''"] by simp

text \<open>\<open>PORT\<close> set to the empty string in an enhanced server, and \<open>PORT\<close> set to
  \<open>8080\<close> in the basic server: both listen on 3001.\<close>

theorem listen_port_set_but_unused:
  "port_part0 (Some '''') = JNum 3001 \<and> port_server (Some ''8080'') = JNum 3001"
  by (simp add: port_part0_def port_server_def)

subsection \<open>The \<open>error\<close> member of failure replies\<close>

lemma upload_server_failure:
  "json_failure (fst (upload_server L file)) \<Longrightarrow> has_error_string (fst (upload_server L file))"
  by (auto simp: upload_server_def res_json_def json_failure_def has_error_string_def
      error_string_def split: option.splits sum.splits if_splits)

lemma upload_part0_failure:
  "json_failure (fst (upload_part0 L clk file)) \<Longrightarrow> has_error_string (fst (upload_part0 L clk file))"
  by (auto simp: upload_part0_def extract_part0_def res_json_def json_failure_def
      has_error_string_def error_string_def split: option.splits sum.splits if_splits)

lemma upload_part1_failure:
  "json_failure (fst (upload_part1 L clk file)) \<Longrightarrow> has_error_string (fst (upload_part1 L clk file))"
  by (auto simp: upload_part1_def extract_part1_def res_json_def json_failure_def
      has_error_string_def error_string_def split: option.splits sum.splits if_splits)

lemma analyze_failure: "json_failure (analyze body) \<Longrightarrow> has_error_string (analyze body)"
  by (auto simp: analyze_def analyze_failed_def Let_def res_json_def json_failure_def
      has_error_string_def error_string_def split: jsval.splits option.splits)

lemma error_middleware_part0_error: "has_error_string (error_middleware_part0 clk e)"
  by (simp add: error_middleware_part0_def res_json_def has_error_string_def error_string_def
      split: js_error.split)

lemma error_middleware_part1_error: "has_error_string (error_middleware_part1 clk e)"
  by (simp add: error_middleware_part1_def res_json_def has_error_string_def error_string_def
      split: js_error.split)

lemma not_found_error: "has_error_string not_found_part0 \<and> has_error_string not_found_part1"
  by (simp add: not_found_part0_def not_found_part1_def availableEndpoints_part0_def
      availableEndpoints_part1_def res_json_def has_error_string_def error_string_def)

lemma ok_replies:
  "\<not> json_failure (health clk)" "\<not> json_failure root" "\<not> json_failure Preflight"
  "\<not> json_failure (FinalHandler x)"
  by (simp_all add: health_def root_def res_json_def json_failure_def)

lemma upload_route_server_failure:
  "json_failure (fst (upload_route_server L req))
    \<Longrightarrow> has_error_string (fst (upload_route_server L req))"
  using upload_server_failure [of L]
  by (auto simp: upload_route_server_def ok_replies split: sum.splits)

lemma upload_route_part0_failure:
  "json_failure (fst (upload_route_part0 L clk req))
    \<Longrightarrow> has_error_string (fst (upload_route_part0 L clk req))"
  using upload_part0_failure [of L clk]
  by (auto simp: upload_route_part0_def error_middleware_part0_error split: sum.splits)

lemma upload_route_part1_failure:
  "json_failure (fst (upload_route_part1 L clk req))
    \<Longrightarrow> has_error_string (fst (upload_route_part1 L clk req))"
  using upload_part1_failure [of L clk]
  by (auto simp: upload_route_part1_def error_middleware_part1_error split: sum.splits)

lemma app_server_failure:
  "json_failure (fst (app_server X L req)) \<Longrightarrow> has_error_string (fst (app_server X L req))"
  using upload_route_server_failure [of L req]
  by (auto simp: app_server_def ok_replies split: if_splits)

lemma app_part0_failure:
  "json_failure (fst (app_part0 X L clk req)) \<Longrightarrow> has_error_string (fst (app_part0 X L clk req))"
  using upload_route_part0_failure [of L clk req] analyze_failure not_found_error
  by (auto simp: app_part0_def ok_replies error_middleware_part0_error split: if_splits sum.splits)

lemma app_part1_failure:
  "json_failure (fst (app_part1 X L clk req)) \<Longrightarrow> has_error_string (fst (app_part1 X L clk req))"
  using upload_route_part1_failure [of L clk req] not_found_error
  by (auto simp: app_part1_def ok_replies split: if_splits)

text \<open>
  C9. Every JSON reply with a status other than 200 carries an \<open>error\<close> member that is a
  string: in each of the three applications as a whole, and in each upload handler, the
  analyze handler, the error middleware and the 404 handler taken alone.
\<close>

theorem failure_replies_carry_error:
  "(json_failure (fst (app_server X L req)) \<longrightarrow> has_error_string (fst (app_server X L req)))
   \<and> (json_failure (fst (app_part0 X L clk req)) \<longrightarrow> has_error_string (fst (app_part0 X L clk req)))
   \<and> (json_failure (fst (app_part1 X L clk req)) \<longrightarrow> has_error_string (fst (app_part1 X L clk req)))
   \<and> (json_failure (fst (upload_server L file)) \<longrightarrow> has_error_string (fst (upload_server L file)))
   \<and> (json_failure (fst (upload_part0 L clk file))
        \<longrightarrow> has_error_string (fst (upload_part0 L clk file)))
   \<and> (json_failure (fst (upload_part1 L clk file))
        \<longrightarrow> has_error_string (fst (upload_part1 L clk file)))
   \<and> (json_failure (analyze body) \<longrightarrow> has_error_string (analyze body))
   \<and> has_error_string (error_middleware_part0 clk e)
   \<and> has_error_string (error_middleware_part1 clk e)
   \<and> has_error_string not_found_part0
   \<and> has_error_string not_found_part1"
  using app_server_failure [of X L req] app_part0_failure [of X L clk req]
    app_part1_failure [of X L clk req] upload_server_failure [of L "file"]
    upload_part0_failure [of L clk "file"] upload_part1_failure [of L clk "file"]
    analyze_failure [of body] error_middleware_part0_error [of clk e]
    error_middleware_part1_error [of clk e] not_found_error
  by blast

theorem failure_replies_carry_error_witness:
  "json_failure (fst (app_server literal_express (stub_libs (Inr (Some ''Goals'')))
      \<lparr>req_method = ''POST'', req_url = ''/upload'', req_body = Inr (JObj []),
       req_multipart = Inr None\<rparr>))
   \<and> has_error_string (fst (app_server literal_express (stub_libs (Inr (Some ''Goals'')))
      \<lparr>req_method = ''POST'', req_url = ''/upload'', req_body = Inr (JObj []),
       req_multipart = Inr None\<rparr>))
   \<and> json_failure (fst (app_part0 literal_express (stub_libs (Inr (Some ''Goals''))) sample_clock
      \<lparr>req_method = ''POST'', req_url = ''/upload'', req_body = Inr (JObj []),
       req_multipart = Inr None\<rparr>))
   \<and> has_error_string (fst (app_part0 literal_express (stub_libs (Inr (Some ''Goals''))) sample_clock
      \<lparr>req_method = ''POST'', req_url = ''/upload'', req_body = Inr (JObj []),
       req_multipart = Inr None\<rparr>))
   \<and> json_failure (fst (app_part1 literal_express (stub_libs (Inr (Some ''Goals''))) sample_clock
      \<lparr>req_method = ''POST'', req_url = ''/upload'', req_body = Inr (JObj []),
       req_multipart = Inr None\<rparr>))
   \<and> has_error_string (fst (app_part1 literal_express (stub_libs (Inr (Some ''Goals''))) sample_clock
      \<lparr>req_method = ''POST'', req_url = ''/upload'', req_body = Inr (JObj []),
       req_multipart = Inr None\<rparr>))
   \<and> json_failure (fst (upload_server (stub_libs (Inr (Some ''Goals''))) None))
   \<and> has_error_string (fst (upload_server (stub_libs (Inr (Some ''Goals''))) None))
   \<and> json_failure (fst (upload_part0 (stub_libs (Inr (Some ''Goals''))) sample_clock None))
   \<and> has_error_string (fst (upload_part0 (stub_libs (Inr (Some ''Goals''))) sample_clock None))
   \<and> json_failure (fst (upload_part1 (stub_libs (Inr (Some ''Goals''))) sample_clock None))
   \<and> has_error_string (fst (upload_part1 (stub_libs (Inr (Some ''Goals''))) sample_clock None))
   \<and> json_failure (analyze JUndefined)
   \<and> has_error_string (analyze JUndefined)"
proof -
  have j1: "json_failure (fst (app_server literal_express (stub_libs (Inr (Some ''Goals'')))
      \<lparr>req_method = ''POST'', req_url = ''/upload'', req_body = Inr (JObj []),
       req_multipart = Inr None\<rparr>))"
    by (simp add: app_server_def literal_express_def is_options_def same_method_path_def
        upload_route_server_def multer_single_def upload_server_def res_json_def json_failure_def)
  have j2: "json_failure (fst (app_part0 literal_express (stub_libs (Inr (Some ''Goals''))) sample_clock
      \<lparr>req_method = ''POST'', req_url = ''/upload'', req_body = Inr (JObj []),
       req_multipart = Inr None\<rparr>))"
    by (simp add: app_part0_def literal_express_def is_options_def same_method_path_def
        upload_route_part0_def multer_single_def upload_part0_def res_json_def json_failure_def)
  have j3: "json_failure (fst (app_part1 literal_express (stub_libs (Inr (Some ''Goals''))) sample_clock
      \<lparr>req_method = ''POST'', req_url = ''/upload'', req_body = Inr (JObj []),
       req_multipart = Inr None\<rparr>))"
    by (simp add: app_part1_def literal_express_def is_options_def same_method_path_def
        upload_route_part1_def multer_single_def upload_part1_def res_json_def json_failure_def)
  have j4: "json_failure (fst (upload_server (stub_libs (Inr (Some ''Goals''))) None))"
    by (simp add: upload_server_def res_json_def json_failure_def)
  have j5: "json_failure (fst (upload_part0 (stub_libs (Inr (Some ''Goals''))) sample_clock None))"
    by (simp add: upload_part0_def res_json_def json_failure_def)
  have j6: "json_failure (fst (upload_part1 (stub_libs (Inr (Some ''Goals''))) sample_clock None))"
    by (simp add: upload_part1_def res_json_def json_failure_def)
  have j7: "json_failure (analyze JUndefined)"
    by (simp add: analyze_def analyze_failed_def res_json_def json_failure_def)
  show ?thesis
    using failure_replies_carry_error
      [of literal_express "stub_libs (Inr (Some ''Goals''))"
          "\<lparr>req_method = ''POST'', req_url = ''/upload'', req_body = Inr (JObj []),
            req_multipart = Inr None\<rparr>"
          sample_clock None JUndefined]
      j1 j2 j3 j4 j5 j6 j7
    by blast
qed

end
